theory Spec2Isabelle
  imports Main "HOL-Library.Word"
begin

section \<open>Blob chunk reassembly in \<open>PluginToolManager.invoke\<close>\<close>

text \<open>
  The development embeds the loop at the end of \<open>PluginToolManager.invoke\<close>
  (\<open>api/core/plugin/impl/tool.py\<close>, lines 116 to 170): the generator that reads the
  stream of \<open>ToolInvokeMessage\<close> values returned by the plugin daemon, collects
  \<open>BLOB_CHUNK\<close> messages in a dictionary of \<open>FileChunk\<close> buffers and yields every other
  message unchanged.
\<close>

subsection \<open>Data model\<close>

type_synonym byte = "8 word"
type_synonym bytes = "byte list"

text \<open>
  Modelled from the spec: the message envelope \<open>ToolInvokeMessage\<close>, its enum
  \<open>MessageType\<close> and its payload classes \<open>BlobChunkMessage\<close> and \<open>BlobMessage\<close> are
  imported from \<open>core.tools.entities.tool_entities\<close>, which is not among the sources.
  The loop reads the fields \<open>type\<close>, \<open>message\<close> and \<open>meta\<close> of the envelope and the
  fields \<open>id\<close>, \<open>total_length\<close>, \<open>blob\<close> and \<open>end\<close> of a chunk payload; section 6 of the
  specification gives them as \<open>{id: string, total_length: integer \<ge> 0, blob: bytes,
  end: boolean}\<close>. Every discriminator other than \<open>BLOB_CHUNK\<close> and \<open>BLOB\<close> is opaque to
  the loop (\<open>OtherType\<close>), and so is every other payload (\<open>OtherMessage\<close>) and the
  \<open>meta\<close> value.
\<close>

datatype MessageType = BLOB_CHUNK | BLOB | OtherType string

text \<open>
  The arguments of \<open>BlobChunkMessage\<close> are the fields \<open>id\<close>, \<open>total_length\<close>, \<open>blob\<close>
  and \<open>end\<close>, in this order. The field \<open>type\<close> of the envelope is \<open>msg_type\<close> here.
\<close>

datatype 'p Message =
    BlobChunkMessage string nat bytes bool
  | BlobMessage bytes
  | OtherMessage 'p

record ('p, 'm) ToolInvokeMessage =
  msg_type :: MessageType
  message :: "'p Message"
  meta :: 'm

text \<open>The local class \<open>FileChunk\<close> (lines 116 to 128).\<close>

record FileChunk =
  bytes_written :: nat
  total_length :: nat
  data :: bytes

text \<open>\<open>FileChunk.__init__\<close>: \<open>bytearray(total_length)\<close> is \<open>total_length\<close> zero bytes.\<close>

definition FileChunk_init :: "nat \<Rightarrow> FileChunk" where
  "FileChunk_init n = \<lparr>bytes_written = 0, total_length = n, data = replicate n 0\<rparr>"

type_synonym files = "string \<rightharpoonup> FileChunk"

text \<open>
  The two \<open>ValueError\<close>s of the loop carry their message; \<open>AssertionError\<close> is the
  \<open>assert isinstance\<close> of line 133.
\<close>

datatype error = AssertionError | ValueError string

definition BlobTooLarge :: error where
  "BlobTooLarge = ValueError ''File is too large which reached the limit of 30MB''"

definition ChunkTooLarge :: error where
  "ChunkTooLarge = ValueError ''File chunk is too large which reached the limit of 8KB''"

subsection \<open>One iteration of the loop\<close>

text \<open>
  Python's slice assignment \<open>buf[off : off + len(b)] = b\<close> on a bytearray: both bounds
  are clamped to \<open>len(buf)\<close>, the slice between them is replaced by \<open>b\<close>, and the
  bytearray grows when the slice is shorter than \<open>b\<close>. \<open>take\<close> and \<open>drop\<close> clamp in the
  same way.
\<close>

definition write_at :: "bytes \<Rightarrow> nat \<Rightarrow> bytes \<Rightarrow> bytes" where
  "write_at buf off b = take off buf @ b @ drop (off + length b) buf"

text \<open>
  The body of the \<open>for\<close> loop (lines 132 to 170) on the dictionary \<open>files\<close> and one
  message \<open>resp\<close>. The result is the dictionary after the iteration together with either
  the exception raised or the messages yielded (none or one). A yielded blob is recorded
  with the content of the buffer at the time of the \<open>yield\<close>, which is what the consumer
  of the generator receives at that point.
\<close>

definition step ::
  "files \<Rightarrow> ('p, 'm) ToolInvokeMessage \<Rightarrow> files \<times> (error + ('p, 'm) ToolInvokeMessage list)"
where
  "step files resp =
    (if msg_type resp = BLOB_CHUNK then
       (case message resp of
          BlobChunkMessage chunk_id n blob_data is_end \<Rightarrow>
            (let entry = (case files chunk_id of
                            None \<Rightarrow> FileChunk_init n
                          | Some f \<Rightarrow> f);
                 files1 = files(chunk_id \<mapsto> entry)
             in if is_end then
                  (files1,
                   Inr [\<lparr>msg_type = BLOB, message = BlobMessage (data entry), meta = meta resp\<rparr>])
                else if bytes_written entry + length blob_data > 30 * 1024 * 1024 then
                  (files1(chunk_id := None), Inl BlobTooLarge)
                else if length blob_data > 8192 then
                  (files1, Inl ChunkTooLarge)
                else
                  (files1(chunk_id \<mapsto> entry
                     \<lparr>bytes_written := bytes_written entry + length blob_data,
                      data := write_at (data entry) (bytes_written entry) blob_data\<rparr>),
                   Inr []))
        | _ \<Rightarrow> (files, Inl AssertionError))
     else (files, Inr [resp]))"

subsection \<open>The loop\<close>

text \<open>
  The generator over a finite stream: the messages yielded, the dictionary when the
  generator stops, and the exception that stopped it, if any. An exception ends the
  generator: the messages yielded before it stay yielded, the rest of the stream is not
  read.
\<close>

fun run ::
  "files \<Rightarrow> ('p, 'm) ToolInvokeMessage list \<Rightarrow>
   ('p, 'm) ToolInvokeMessage list \<times> files \<times> error option"
where
  "run files [] = ([], files, None)"
| "run files (resp # rest) =
     (case step files resp of
        (files', Inl e) \<Rightarrow> ([], files', Some e)
      | (files', Inr out) \<Rightarrow>
          (case run files' rest of (outs, files'', err) \<Rightarrow> (out @ outs, files'', err)))"

definition invoke ::
  "('p, 'm) ToolInvokeMessage list \<Rightarrow>
   ('p, 'm) ToolInvokeMessage list \<times> files \<times> error option"
where
  "invoke response = run Map.empty response"

definition outputs :: "'a \<times> 'b \<times> 'c \<Rightarrow> 'a" where
  "outputs r = fst r"

definition final_files :: "'a \<times> 'b \<times> 'c \<Rightarrow> 'b" where
  "final_files r = fst (snd r)"

definition raised :: "'a \<times> 'b \<times> 'c \<Rightarrow> 'c" where
  "raised r = snd (snd r)"

text \<open>A well-formed chunk event, as the decoder builds it.\<close>

definition chunk ::
  "string \<Rightarrow> nat \<Rightarrow> bytes \<Rightarrow> bool \<Rightarrow> 'm \<Rightarrow> ('p, 'm) ToolInvokeMessage"
where
  "chunk chunk_id n blob_data is_end m =
     \<lparr>msg_type = BLOB_CHUNK, message = BlobChunkMessage chunk_id n blob_data is_end, meta = m\<rparr>"

subsection \<open>Notions used to state the properties\<close>

text \<open>
  An event is well formed when a \<open>BLOB_CHUNK\<close> discriminator comes with a chunk payload
  (the \<open>assert\<close> of line 133 holds).
\<close>

definition well_formed :: "('p, 'm) ToolInvokeMessage \<Rightarrow> bool" where
  "well_formed e =
     (msg_type e = BLOB_CHUNK \<longrightarrow>
        (case message e of BlobChunkMessage chunk_id n blob_data is_end \<Rightarrow> True | _ \<Rightarrow> False))"

text \<open>The event is a chunk event for the identifier \<open>c\<close>.\<close>

definition is_chunk_of :: "string \<Rightarrow> ('p, 'm) ToolInvokeMessage \<Rightarrow> bool" where
  "is_chunk_of c e =
     (msg_type e = BLOB_CHUNK \<and>
        (case message e of BlobChunkMessage chunk_id n blob_data is_end \<Rightarrow> chunk_id = c | _ \<Rightarrow> False))"

text \<open>The event is a chunk event for \<open>c\<close> with \<open>end = True\<close>.\<close>

definition is_final_chunk_of :: "string \<Rightarrow> ('p, 'm) ToolInvokeMessage \<Rightarrow> bool" where
  "is_final_chunk_of c e =
     (msg_type e = BLOB_CHUNK \<and>
        (case message e of
           BlobChunkMessage chunk_id n blob_data is_end \<Rightarrow> chunk_id = c \<and> is_end
         | _ \<Rightarrow> False))"

text \<open>
  The bytes an event offers for the buffer of \<open>c\<close>: the data of a chunk for \<open>c\<close> with
  \<open>end = False\<close>, nothing for any other event. \<open>written c xs\<close> is the concatenation over
  a stream, in arrival order.
\<close>

definition written_by :: "string \<Rightarrow> ('p, 'm) ToolInvokeMessage \<Rightarrow> bytes" where
  "written_by c e =
     (if msg_type e = BLOB_CHUNK then
        (case message e of
           BlobChunkMessage chunk_id n blob_data is_end \<Rightarrow>
             if chunk_id = c \<and> \<not> is_end then blob_data else []
         | _ \<Rightarrow> [])
      else [])"

definition written :: "string \<Rightarrow> ('p, 'm) ToolInvokeMessage list \<Rightarrow> bytes" where
  "written c xs = concat (map (written_by c) xs)"

text \<open>
  The \<open>total_length\<close> an event declares for \<open>c\<close>, and the one declared by the first
  chunk for \<open>c\<close> in a stream.
\<close>

definition declared_by :: "string \<Rightarrow> ('p, 'm) ToolInvokeMessage \<Rightarrow> nat option" where
  "declared_by c e =
     (if msg_type e = BLOB_CHUNK then
        (case message e of
           BlobChunkMessage chunk_id n blob_data is_end \<Rightarrow> if chunk_id = c then Some n else None
         | _ \<Rightarrow> None)
      else None)"

fun declared :: "string \<Rightarrow> ('p, 'm) ToolInvokeMessage list \<Rightarrow> nat option" where
  "declared c [] = None"
| "declared c (e # es) =
     (case declared_by c e of Some n \<Rightarrow> Some n | None \<Rightarrow> declared c es)"

text \<open>
  The buffer of \<open>c\<close> after a stream that raised nothing: the bytes written, then zero
  bytes up to the declared length.
\<close>

definition buffer_of :: "nat \<Rightarrow> bytes \<Rightarrow> FileChunk" where
  "buffer_of n w =
     \<lparr>bytes_written = length w, total_length = n, data = w @ replicate (n - length w) 0\<rparr>"

definition expected_entry :: "string \<Rightarrow> ('p, 'm) ToolInvokeMessage list \<Rightarrow> FileChunk option" where
  "expected_entry c xs = map_option (\<lambda>n. buffer_of n (written c xs)) (declared c xs)"

text \<open>A chunk with \<open>end = False\<close> passes the per-chunk guard of line 160.\<close>

definition within_chunk_limit :: "('p, 'm) ToolInvokeMessage \<Rightarrow> bool" where
  "within_chunk_limit e =
     (msg_type e = BLOB_CHUNK \<longrightarrow>
        (case message e of
           BlobChunkMessage chunk_id n blob_data is_end \<Rightarrow> is_end \<or> length blob_data \<le> 8192
         | _ \<Rightarrow> True))"

section \<open>Properties\<close>

subsection \<open>Basic facts about the loop\<close>

lemma step_other:
  "msg_type resp \<noteq> BLOB_CHUNK \<Longrightarrow> step files resp = (files, Inr [resp])"
  by (simp add: step_def)

lemma run_no_chunks:
  "\<forall>e \<in> set xs. msg_type e \<noteq> BLOB_CHUNK \<Longrightarrow> run files xs = (xs, files, None)"
  by (induction xs arbitrary: files) (simp_all add: step_other)

lemma run_append:
  "run files (xs @ ys) =
     (case run files xs of
        (outs, files1, Some e) \<Rightarrow> (outs, files1, Some e)
      | (outs, files1, None) \<Rightarrow>
          (case run files1 ys of (outs', files2, err) \<Rightarrow> (outs @ outs', files2, err)))"
proof (induction xs arbitrary: files)
  case Nil
  show ?case by (simp split: prod.splits)
next
  case (Cons x xs)
  show ?case
    by (simp add: Cons.IH split: prod.splits sum.splits option.splits)
qed

lemma run_snoc_ok:
  "run fs pre = (outs, fs1, None) \<Longrightarrow>
   run fs (pre @ [e]) =
     (case step fs1 e of
        (fs2, Inl err) \<Rightarrow> (outs, fs2, Some err)
      | (fs2, Inr out) \<Rightarrow> (outs @ out, fs2, None))"
  by (simp add: run_append split: prod.splits sum.splits)

lemma run_fault:
  "run fs pre = (outs, fs1, None) \<Longrightarrow> step fs1 e = (fs2, Inl err) \<Longrightarrow>
   run fs (pre @ e # post) = (outs, fs2, Some err)"
  by (simp add: run_append)

lemma run_snoc_None:
  "run fs (pre @ [e]) = (outs, fs2, None) \<Longrightarrow>
   \<exists>outs1 fs1 out. run fs pre = (outs1, fs1, None) \<and> step fs1 e = (fs2, Inr out) \<and> outs = outs1 @ out"
  by (auto simp add: run_append split: prod.splits sum.splits option.splits)

subsection \<open>The dictionary after a stream\<close>

text \<open>
  After a stream that raised nothing, the dictionary holds, for every identifier that
  occurred, the buffer of the declared length with the bytes of the chunks sent with
  \<open>end = False\<close> at its start and zero bytes after them.
\<close>

lemma written_snoc: "written c (xs @ [e]) = written c xs @ written_by c e"
  by (simp add: written_def)

lemma declared_snoc:
  "declared c (xs @ [e]) = (case declared c xs of Some n \<Rightarrow> Some n | None \<Rightarrow> declared_by c e)"
  by (induction xs) (simp_all split: option.splits)

lemma write_at_buffer:
  "write_at (w @ replicate (n - length w) 0) (length w) b =
   (w @ b) @ replicate (n - length (w @ b)) 0"
  by (simp add: write_at_def)

lemma written_by_undeclared: "declared_by c e = None \<Longrightarrow> written_by c e = []"
  by (auto simp add: declared_by_def written_by_def split: if_splits Message.splits)

lemma written_undeclared: "declared c xs = None \<Longrightarrow> written c xs = []"
  by (induction xs) (auto simp add: written_def written_by_undeclared split: option.splits)

lemma step_entry:
  assumes "fs1 c = expected_entry c xs" and "step fs1 e = (fs2, Inr out)"
  shows "fs2 c = expected_entry c (xs @ [e])"
  using assms
  by (auto simp add: step_def expected_entry_def written_snoc declared_snoc written_by_def
      declared_by_def Let_def buffer_of_def FileChunk_init_def write_at_def
      split: if_splits Message.splits option.splits dest: written_undeclared)

lemma run_entry:
  "run Map.empty xs = (outs, fs, None) \<Longrightarrow> fs c = expected_entry c xs"
proof (induction xs arbitrary: outs fs rule: rev_induct)
  case Nil
  then show ?case by (auto simp add: expected_entry_def)
next
  case (snoc e xs)
  from run_snoc_None[OF snoc.prems] obtain outs1 fs1 out where
    r: "run Map.empty xs = (outs1, fs1, None)" and s: "step fs1 e = (fs, Inr out)" by blast
  from snoc.IH[OF r] s show ?case by (rule step_entry)
qed


text \<open>A stream whose events pass every check of the loop is read to its end.\<close>

lemma step_no_fault:
  assumes st: "\<And>c. fs1 c = expected_entry c xs"
    and wf: "well_formed e" and lim: "within_chunk_limit e"
    and cum: "\<And>c. length (written c (xs @ [e])) \<le> 30 * 1024 * 1024"
  shows "\<exists>fs2 out. step fs1 e = (fs2, Inr out)"
proof (cases "msg_type e = BLOB_CHUNK")
  case False
  then show ?thesis by (simp add: step_other)
next
  case True
  with wf obtain c n d fin where m: "message e = BlobChunkMessage c n d fin"
    by (auto simp add: well_formed_def split: Message.splits)
  show ?thesis
  proof (cases fin)
    case True
    with m \<open>msg_type e = BLOB_CHUNK\<close> show ?thesis by (simp add: step_def Let_def)
  next
    case False
    from lim m False \<open>msg_type e = BLOB_CHUNK\<close> have l: "length d \<le> 8192"
      by (simp add: within_chunk_limit_def)
    from cum[of c] m False \<open>msg_type e = BLOB_CHUNK\<close>
    have k: "length (written c xs) + length d \<le> 30 * 1024 * 1024"
      by (simp add: written_snoc written_by_def)
    have "bytes_written (case fs1 c of None \<Rightarrow> FileChunk_init n | Some f \<Rightarrow> f) = length (written c xs)"
      by (auto simp add: st expected_entry_def buffer_of_def FileChunk_init_def
          split: option.splits dest: written_undeclared)
    with l k m False \<open>msg_type e = BLOB_CHUNK\<close> show ?thesis
      by (simp add: step_def Let_def)
  qed
qed

lemma written_prefix_le: "length (written c xs) \<le> length (written c (xs @ [e]))"
  by (simp add: written_snoc)

lemma run_no_fault:
  assumes "\<forall>e \<in> set xs. well_formed e" and "\<forall>e \<in> set xs. within_chunk_limit e"
    and "\<forall>c. length (written c xs) \<le> 30 * 1024 * 1024"
  shows "\<exists>outs fs. run Map.empty xs = (outs, fs, None)"
  using assms
proof (induction xs rule: rev_induct)
  case Nil
  show ?case by simp
next
  case (snoc e xs)
  have "\<forall>c. length (written c xs) \<le> 30 * 1024 * 1024"
    using snoc.prems(3) written_prefix_le le_trans by blast
  with snoc obtain outs fs1 where r: "run Map.empty xs = (outs, fs1, None)" by auto
  have "\<exists>fs2 out. step fs1 e = (fs2, Inr out)"
    using run_entry[OF r] snoc.prems by (intro step_no_fault[where xs = xs]) auto
  then show ?case using run_snoc_ok[OF r, of e] by auto
qed

lemma run_final_chunk:
  assumes "run Map.empty pre = (outs, fs1, None)"
  shows "run Map.empty (pre @ [chunk c n d True m]) =
           (outs @
            [\<lparr>msg_type = BLOB,
              message = BlobMessage
                (data (buffer_of (case declared c pre of None \<Rightarrow> n | Some k \<Rightarrow> k) (written c pre))),
              meta = m\<rparr>],
            fs1(c \<mapsto> buffer_of (case declared c pre of None \<Rightarrow> n | Some k \<Rightarrow> k) (written c pre)),
            None)"
  using run_entry[OF assms, of c]
  by (auto simp add: run_snoc_ok[OF assms] step_def chunk_def Let_def expected_entry_def
      FileChunk_init_def buffer_of_def split: option.splits dest: written_undeclared)

subsection \<open>Evaluation on concrete streams\<close>

lemma replicate_numeral: "replicate (numeral k) x = x # replicate (pred_numeral k) x"
  by (simp add: numeral_eq_Suc)

lemma run_after_no_chunks:
  "\<forall>e \<in> set pre. msg_type e \<noteq> BLOB_CHUNK \<Longrightarrow>
   run fs (pre @ rest) = (case run fs rest of (outs, r) \<Rightarrow> (pre @ outs, r))"
  by (simp add: run_append run_no_chunks split: prod.splits)

lemma run_surrounded:
  assumes "\<forall>e \<in> set pre. msg_type e \<noteq> BLOB_CHUNK" and "\<forall>e \<in> set post. msg_type e \<noteq> BLOB_CHUNK"
    and "step fs e = (fs', Inr out)"
  shows "run fs (pre @ e # post) = (pre @ out @ post, fs', None)"
  using assms by (simp add: run_append run_no_chunks)

subsection \<open>The result of \<open>invoke\<close> by components\<close>

lemma invoke_ok:
  "raised (invoke pre) = None \<Longrightarrow>
   run Map.empty pre = (outputs (invoke pre), final_files (invoke pre), None)"
  by (cases "run Map.empty pre") (simp add: raised_def outputs_def final_files_def invoke_def)

lemma entry_bytes_written:
  assumes "run Map.empty pre = (outs, fs, None)"
  shows "bytes_written (case fs c of None \<Rightarrow> FileChunk_init n | Some f \<Rightarrow> f) = length (written c pre)"
  using run_entry[OF assms, of c]
  by (auto simp add: expected_entry_def buffer_of_def FileChunk_init_def
      split: option.splits dest: written_undeclared)

lemma step_chunk_too_large:
  assumes "8192 < length d" and "bytes_written (case fs c of None \<Rightarrow> FileChunk_init n | Some f \<Rightarrow> f) + length d \<le> 30 * 1024 * 1024"
  shows "step fs (chunk c n d False m) =
           (fs(c \<mapsto> (case fs c of None \<Rightarrow> FileChunk_init n | Some f \<Rightarrow> f)), Inl ChunkTooLarge)"
  using assms by (simp add: step_def chunk_def Let_def)

lemma step_blob_too_large:
  assumes "30 * 1024 * 1024 < bytes_written (case fs c of None \<Rightarrow> FileChunk_init n | Some f \<Rightarrow> f) + length d"
  shows "step fs (chunk c n d False m) = (fs(c := None), Inl BlobTooLarge)"
  using assms by (simp add: step_def chunk_def Let_def)

text \<open>
  A stream of 3840 chunks of 8192 bytes for one identifier fills its buffer up to the
  limit of 30 MiB without a fault.
\<close>

lemma written_replicate: "written c (replicate k e) = concat (replicate k (written_by c e))"
  by (simp add: written_def)

lemma length_concat_replicate: "length (concat (replicate k xs)) = k * length xs"
  by (induction k) simp_all

lemma full_stream_ok:
  "raised (invoke (replicate 3840 (chunk ''x'' 31457281 (replicate 8192 0x41) False ''m'')
     :: (string, string) ToolInvokeMessage list)) = None"
proof -
  let ?pre = "replicate 3840 (chunk ''x'' 31457281 (replicate 8192 0x41) False ''m'')
                :: (string, string) ToolInvokeMessage list"
  have "\<forall>e \<in> set ?pre. well_formed e" by (simp add: well_formed_def chunk_def)
  moreover have "\<forall>e \<in> set ?pre. within_chunk_limit e" by (simp add: within_chunk_limit_def chunk_def)
  moreover have "\<forall>c. length (written c ?pre) \<le> 30 * 1024 * 1024"
    by (simp add: written_replicate length_concat_replicate written_by_def chunk_def)
  ultimately obtain outs fs where "run Map.empty ?pre = (outs, fs, None)"
    using run_no_fault by blast
  then show ?thesis by (simp add: raised_def invoke_def)
qed

lemma full_stream_written:
  "length (written ''x'' (replicate 3840 (chunk ''x'' 31457281 (replicate 8192 0x41) False ''m'')
     :: (string, string) ToolInvokeMessage list)) = 31457280"
  by (simp add: written_replicate length_concat_replicate written_by_def chunk_def)

text \<open>
  Chunks of an identifier that never sees a final chunk change the buffer of that
  identifier only, and nothing that is yielded depends on it.
\<close>

lemma written_by_other: "is_chunk_of c e \<Longrightarrow> c' \<noteq> c \<Longrightarrow> written_by c' e = []"
  by (auto simp add: is_chunk_of_def written_by_def split: Message.splits)

lemma declared_by_other: "is_chunk_of c e \<Longrightarrow> c' \<noteq> c \<Longrightarrow> declared_by c' e = None"
  by (auto simp add: is_chunk_of_def declared_by_def split: Message.splits)

lemma written_filter:
  "c' \<noteq> c \<Longrightarrow> written c' (filter (\<lambda>e. \<not> is_chunk_of c e) xs) = written c' xs"
  by (induction xs) (auto simp add: written_def written_by_other)

lemma declared_filter:
  "c' \<noteq> c \<Longrightarrow> declared c' (filter (\<lambda>e. \<not> is_chunk_of c e) xs) = declared c' xs"
  by (induction xs) (auto simp add: declared_by_other split: option.splits)

lemma expected_entry_filter:
  "c' \<noteq> c \<Longrightarrow> expected_entry c' (filter (\<lambda>e. \<not> is_chunk_of c e) xs) = expected_entry c' xs"
  by (simp add: expected_entry_def written_filter declared_filter)

lemma step_output_cong:
  assumes "\<And>c'. is_chunk_of c' e \<Longrightarrow> fs c' = fs' c'"
  shows "snd (step fs e) = snd (step fs' e)"
proof (cases "msg_type e = BLOB_CHUNK")
  case False
  then show ?thesis by (simp add: step_other)
next
  case True
  show ?thesis
  proof (cases "message e")
    case (BlobChunkMessage c n d fin)
    with True have "is_chunk_of c e" by (simp add: is_chunk_of_def)
    then have "fs c = fs' c" by (rule assms)
    with True BlobChunkMessage show ?thesis by (simp add: step_def Let_def)
  qed (simp_all add: step_def True)
qed

lemma step_pending_silent:
  assumes "step fs e = (fs', Inr out)" and "is_chunk_of c e" and "\<not> is_final_chunk_of c e"
  shows "out = []"
  using assms
  by (auto simp add: step_def is_chunk_of_def is_final_chunk_of_def Let_def
      split: if_splits Message.splits)

lemma run_without_pending:
  assumes "run Map.empty xs = (outs, fs, None)" and "\<forall>e \<in> set xs. \<not> is_final_chunk_of c e"
  shows "\<exists>fs'. run Map.empty (filter (\<lambda>e. \<not> is_chunk_of c e) xs) = (outs, fs', None)"
  using assms
proof (induction xs arbitrary: outs fs rule: rev_induct)
  case Nil
  then show ?case by simp
next
  case (snoc e xs)
  from run_snoc_None[OF snoc.prems(1)] obtain outs1 fs1 out where
    r: "run Map.empty xs = (outs1, fs1, None)" and s: "step fs1 e = (fs, Inr out)"
    and o: "outs = outs1 @ out" by blast
  from snoc.IH[OF r] snoc.prems(2) obtain fs1' where
    r': "run Map.empty (filter (\<lambda>e. \<not> is_chunk_of c e) xs) = (outs1, fs1', None)" by auto
  show ?case
  proof (cases "is_chunk_of c e")
    case True
    moreover from snoc.prems(2) have "\<not> is_final_chunk_of c e" by simp
    ultimately have "out = []" using s step_pending_silent by blast
    with True r' o show ?thesis by simp
  next
    case False
    have "snd (step fs1' e) = snd (step fs1 e)"
    proof (rule step_output_cong)
      fix c' assume "is_chunk_of c' e"
      with False have "c' \<noteq> c" by auto
      then show "fs1' c' = fs1 c'"
        using run_entry[OF r, of c'] run_entry[OF r', of c'] by (simp add: expected_entry_filter)
    qed
    with s obtain fs2 where "step fs1' e = (fs2, Inr out)" by (cases "step fs1' e") simp
    with run_snoc_ok[OF r', of e] False o show ?thesis by simp
  qed
qed

subsection \<open>Pass-through\<close>

text \<open>
  C7: for every finite input sequence that contains no \<open>BLOB_CHUNK\<close> event, the output
  sequence of the loop is the input sequence itself, every event unchanged and in the
  same order; no exception is raised and no buffer is created.
\<close>

theorem passthrough_without_chunks:
  assumes "\<forall>e \<in> set xs. msg_type e \<noteq> BLOB_CHUNK"
  shows "invoke xs = (xs, Map.empty, None)"
  using assms by (simp add: invoke_def run_no_chunks)

theorem passthrough_without_chunks_witness:
  "msg_type \<lparr>msg_type = OtherType ''text'', message = OtherMessage ''hi'', meta = (1::nat)\<rparr> \<noteq> BLOB_CHUNK \<and>
   msg_type \<lparr>msg_type = BLOB, message = BlobMessage [1, 2], meta = (2::nat)\<rparr> \<noteq> BLOB_CHUNK \<and>
   invoke [\<lparr>msg_type = OtherType ''text'', message = OtherMessage ''hi'', meta = (1::nat)\<rparr>,
           \<lparr>msg_type = BLOB, message = BlobMessage [1, 2], meta = 2\<rparr>] =
     ([\<lparr>msg_type = OtherType ''text'', message = OtherMessage ''hi'', meta = 1\<rparr>,
       \<lparr>msg_type = BLOB, message = BlobMessage [1, 2], meta = 2\<rparr>], Map.empty, None)"
  using passthrough_without_chunks
    [of "[\<lparr>msg_type = OtherType ''text'', message = OtherMessage ''hi'', meta = (1::nat)\<rparr>,
          \<lparr>msg_type = BLOB, message = BlobMessage [1, 2], meta = 2\<rparr>]"]
  by simp

subsection \<open>Reassembly\<close>

text \<open>
  C1, as stated, fails: for the chunks \<open>{id = "x", data = b"AB", end = False}\<close> and
  \<open>{id = "x", data = b"CD", end = True}\<close> with a declared length of 4 the loop yields one
  blob, and its content is \<open>b"AB\x00\x00"\<close>, not \<open>b"ABCD"\<close>: the branch for
  \<open>end = True\<close> (lines 145 to 150) yields the buffer and never writes the chunk's data.
\<close>

theorem multi_chunk_counterexample:
  "outputs (invoke [chunk ''x'' 4 [0x41, 0x42] False (), chunk ''x'' 4 [0x43, 0x44] True ()]
      :: (unit, unit) ToolInvokeMessage list \<times> files \<times> error option)
     = [\<lparr>msg_type = BLOB, message = BlobMessage [0x41, 0x42, 0, 0], meta = ()\<rparr>] \<and>
   outputs (invoke [chunk ''x'' 4 [0x41, 0x42] False (), chunk ''x'' 4 [0x43, 0x44] True ()]
      :: (unit, unit) ToolInvokeMessage list \<times> files \<times> error option)
     \<noteq> [\<lparr>msg_type = BLOB, message = BlobMessage [0x41, 0x42, 0x43, 0x44], meta = ()\<rparr>]"
  by (simp add: outputs_def invoke_def step_def chunk_def Let_def FileChunk_init_def write_at_def  replicate_numeral)

text \<open>
  C1, amended: for an input sequence made of the chunk \<open>{id = "x", data = b"AB",
  end = False}\<close>, later the chunk \<open>{id = "x", data = b"CD", end = True}\<close>, and otherwise
  only events that are not chunks, the loop yields exactly one blob besides the events
  passed through. Its content is \<open>b"AB"\<close> followed by zero bytes up to the length \<open>n\<close>
  declared by the first chunk (\<open>b"AB"\<close> alone when \<open>n \<le> 2\<close>); the data of the final
  chunk is not part of it. The blob stands at the position of the final chunk and carries
  its \<open>meta\<close>.
\<close>

theorem multi_chunk_zero_padded:
  assumes "\<forall>e \<in> set pre. msg_type e \<noteq> BLOB_CHUNK"
    and "\<forall>e \<in> set mid. msg_type e \<noteq> BLOB_CHUNK"
    and "\<forall>e \<in> set post. msg_type e \<noteq> BLOB_CHUNK"
  shows "invoke (pre @ chunk ''x'' n [0x41, 0x42] False m1 # mid @ chunk ''x'' n' [0x43, 0x44] True m2 # post) =
           (pre @ mid @
              \<lparr>msg_type = BLOB, message = BlobMessage ([0x41, 0x42] @ replicate (n - 2) 0), meta = m2\<rparr> #
              post,
            [''x'' \<mapsto> \<lparr>bytes_written = 2, total_length = n, data = [0x41, 0x42] @ replicate (n - 2) 0\<rparr>],
            None)"
proof -
  let ?f = "\<lparr>bytes_written = 2, total_length = n, data = [0x41, 0x42] @ replicate (n - 2) 0\<rparr>"
  have s1: "step Map.empty (chunk ''x'' n [0x41, 0x42] False m1 :: ('a, 'b) ToolInvokeMessage)
              = ([''x'' \<mapsto> ?f], Inr [])"
    by (simp add: step_def chunk_def Let_def FileChunk_init_def write_at_def numeral_2_eq_2)
  have s2: "step [''x'' \<mapsto> ?f] (chunk ''x'' n' [0x43, 0x44] True m2 :: ('a, 'b) ToolInvokeMessage)
              = ([''x'' \<mapsto> ?f], Inr [\<lparr>msg_type = BLOB, message = BlobMessage ([0x41, 0x42] @ replicate (n - 2) 0), meta = m2\<rparr>])"
    by (simp add: step_def chunk_def Let_def)
  have r2: "run [''x'' \<mapsto> ?f] (mid @ chunk ''x'' n' [0x43, 0x44] True m2 # post) =
              (mid @ [\<lparr>msg_type = BLOB, message = BlobMessage ([0x41, 0x42] @ replicate (n - 2) 0), meta = m2\<rparr>] @ post, [''x'' \<mapsto> ?f], None)"
    using assms(2,3) s2 by (rule run_surrounded)
  have "run Map.empty (chunk ''x'' n [0x41, 0x42] False m1 # mid @ chunk ''x'' n' [0x43, 0x44] True m2 # post)
          = (mid @ [\<lparr>msg_type = BLOB, message = BlobMessage ([0x41, 0x42] @ replicate (n - 2) 0), meta = m2\<rparr>] @ post, [''x'' \<mapsto> ?f], None)"
    using s1 r2 by simp
  with assms(1)
  have "run Map.empty (pre @ chunk ''x'' n [0x41, 0x42] False m1 # mid @ chunk ''x'' n' [0x43, 0x44] True m2 # post)
          = (pre @ mid @ [\<lparr>msg_type = BLOB, message = BlobMessage ([0x41, 0x42] @ replicate (n - 2) 0), meta = m2\<rparr>] @ post, [''x'' \<mapsto> ?f], None)"
    by (simp add: run_after_no_chunks)
  then show ?thesis by (simp add: invoke_def)
qed

theorem multi_chunk_zero_padded_witness:
  "msg_type \<lparr>msg_type = OtherType ''text'', message = OtherMessage ''a'', meta = ''m0''\<rparr> \<noteq> BLOB_CHUNK \<and>
   msg_type \<lparr>msg_type = OtherType ''text'', message = OtherMessage ''b'', meta = ''m0''\<rparr> \<noteq> BLOB_CHUNK \<and>
   msg_type \<lparr>msg_type = OtherType ''text'', message = OtherMessage ''c'', meta = ''m0''\<rparr> \<noteq> BLOB_CHUNK \<and>
   invoke [\<lparr>msg_type = OtherType ''text'', message = OtherMessage ''a'', meta = ''m0''\<rparr>,
           chunk ''x'' 4 [0x41, 0x42] False ''m1'',
           \<lparr>msg_type = OtherType ''text'', message = OtherMessage ''b'', meta = ''m0''\<rparr>,
           chunk ''x'' 4 [0x43, 0x44] True ''m2'',
           \<lparr>msg_type = OtherType ''text'', message = OtherMessage ''c'', meta = ''m0''\<rparr>] =
     ([\<lparr>msg_type = OtherType ''text'', message = OtherMessage ''a'', meta = ''m0''\<rparr>,
       \<lparr>msg_type = OtherType ''text'', message = OtherMessage ''b'', meta = ''m0''\<rparr>,
       \<lparr>msg_type = BLOB, message = BlobMessage [0x41, 0x42, 0, 0], meta = ''m2''\<rparr>,
       \<lparr>msg_type = OtherType ''text'', message = OtherMessage ''c'', meta = ''m0''\<rparr>],
      [''x'' \<mapsto> \<lparr>bytes_written = 2, total_length = 4, data = [0x41, 0x42, 0, 0]\<rparr>],
      None)"
  using multi_chunk_zero_padded
    [of "[\<lparr>msg_type = OtherType ''text'', message = OtherMessage ''a'', meta = ''m0''\<rparr>]"
        "[\<lparr>msg_type = OtherType ''text'', message = OtherMessage ''b'', meta = ''m0''\<rparr>]"
        "[\<lparr>msg_type = OtherType ''text'', message = OtherMessage ''c'', meta = ''m0''\<rparr>]"
        4 "''m1''" 4 "''m2''"]
  by (simp add: replicate_numeral)

text \<open>
  C2, as stated, fails: a stream whose only chunk is \<open>{id = "x", total_length = 2,
  data = b"AB", end = True}\<close> yields one blob with the content \<open>b"\x00\x00"\<close>, not
  \<open>b"AB"\<close>.
\<close>

theorem single_chunk_counterexample:
  "outputs (invoke [chunk ''x'' 2 [0x41, 0x42] True ()]
      :: (unit, unit) ToolInvokeMessage list \<times> files \<times> error option)
     = [\<lparr>msg_type = BLOB, message = BlobMessage [0, 0], meta = ()\<rparr>] \<and>
   outputs (invoke [chunk ''x'' 2 [0x41, 0x42] True ()]
      :: (unit, unit) ToolInvokeMessage list \<times> files \<times> error option)
     \<noteq> [\<lparr>msg_type = BLOB, message = BlobMessage [0x41, 0x42], meta = ()\<rparr>]"
  by (simp add: outputs_def invoke_def step_def chunk_def Let_def FileChunk_init_def write_at_def  replicate_numeral)

text \<open>
  C2, amended: for every input sequence whose only chunk event carries \<open>end = True\<close>,
  the loop yields exactly one blob besides the events passed through, at the position of
  the chunk and with its \<open>meta\<close>. The content of the blob is the freshly allocated
  buffer: \<open>total_length\<close> zero bytes, whatever the data of the chunk and its length are.
\<close>

theorem single_final_chunk_zero_filled:
  assumes "\<forall>e \<in> set pre. msg_type e \<noteq> BLOB_CHUNK"
    and "\<forall>e \<in> set post. msg_type e \<noteq> BLOB_CHUNK"
  shows "invoke (pre @ chunk c n d True m # post) =
           (pre @ \<lparr>msg_type = BLOB, message = BlobMessage (replicate n 0), meta = m\<rparr> # post,
            [c \<mapsto> FileChunk_init n], None)"
proof -
  have "step Map.empty (chunk c n d True m :: ('a, 'b) ToolInvokeMessage) =
          ([c \<mapsto> FileChunk_init n], Inr [\<lparr>msg_type = BLOB, message = BlobMessage (data (FileChunk_init n)), meta = m\<rparr>])"
    by (simp add: step_def chunk_def Let_def)
  from run_surrounded[OF assms this] show ?thesis
    by (simp add: invoke_def FileChunk_init_def)
qed

theorem single_final_chunk_zero_filled_witness:
  "msg_type \<lparr>msg_type = OtherType ''text'', message = OtherMessage ''a'', meta = ''m0''\<rparr> \<noteq> BLOB_CHUNK \<and>
   msg_type \<lparr>msg_type = OtherType ''text'', message = OtherMessage ''b'', meta = ''m0''\<rparr> \<noteq> BLOB_CHUNK \<and>
   invoke [\<lparr>msg_type = OtherType ''text'', message = OtherMessage ''a'', meta = ''m0''\<rparr>,
           chunk ''x'' 3 [0x41, 0x42, 0x43] True ''m1'',
           \<lparr>msg_type = OtherType ''text'', message = OtherMessage ''b'', meta = ''m0''\<rparr>] =
     ([\<lparr>msg_type = OtherType ''text'', message = OtherMessage ''a'', meta = ''m0''\<rparr>,
       \<lparr>msg_type = BLOB, message = BlobMessage [0, 0, 0], meta = ''m1''\<rparr>,
       \<lparr>msg_type = OtherType ''text'', message = OtherMessage ''b'', meta = ''m0''\<rparr>],
      [''x'' \<mapsto> \<lparr>bytes_written = 0, total_length = 3, data = [0, 0, 0]\<rparr>],
      None)"
  using single_final_chunk_zero_filled
    [of "[\<lparr>msg_type = OtherType ''text'', message = OtherMessage ''a'', meta = ''m0''\<rparr>]"
        "[\<lparr>msg_type = OtherType ''text'', message = OtherMessage ''b'', meta = ''m0''\<rparr>]"
        "''x''" 3 "[0x41, 0x42, 0x43]" "''m1''"]
  by (simp add: replicate_numeral FileChunk_init_def)

subsection \<open>Metadata of an emitted blob\<close>

text \<open>
  C9: whenever a chunk with \<open>end = True\<close> is consumed after a stream that raised
  nothing, the loop yields one more message, the blob built from the buffer of that
  identifier, and the \<open>meta\<close> of this blob is the \<open>meta\<close> of the final chunk itself,
  whatever \<open>meta\<close> the earlier chunks carried.
\<close>

theorem blob_meta_from_final_chunk:
  assumes "raised (invoke pre) = None"
  shows "outputs (invoke (pre @ [chunk c n d True m])) =
           outputs (invoke pre) @
           [\<lparr>msg_type = BLOB,
             message = BlobMessage
               (data (case final_files (invoke pre) c of None \<Rightarrow> FileChunk_init n | Some f \<Rightarrow> f)),
             meta = m\<rparr>] \<and>
         msg_type (last (outputs (invoke (pre @ [chunk c n d True m])))) = BLOB \<and>
         meta (last (outputs (invoke (pre @ [chunk c n d True m])))) = m"
proof -
  have "outputs (invoke (pre @ [chunk c n d True m])) =
           outputs (invoke pre) @
           [\<lparr>msg_type = BLOB,
             message = BlobMessage
               (data (case final_files (invoke pre) c of None \<Rightarrow> FileChunk_init n | Some f \<Rightarrow> f)),
             meta = m\<rparr>]"
    using run_snoc_ok[OF invoke_ok[OF assms], of "chunk c n d True m"]
    by (simp add: invoke_def outputs_def step_def chunk_def Let_def)
  then show ?thesis by simp
qed

theorem blob_meta_from_final_chunk_witness:
  "raised (invoke [chunk ''x'' 2 [0x41, 0x42] False ''early'' :: (string, string) ToolInvokeMessage]) = None \<and>
   outputs (invoke ([chunk ''x'' 2 [0x41, 0x42] False ''early''] @
                    [chunk ''x'' 2 [] True ''last'' :: (string, string) ToolInvokeMessage])) =
     [\<lparr>msg_type = BLOB, message = BlobMessage [0x41, 0x42], meta = ''last''\<rparr>] \<and>
   msg_type (last (outputs (invoke ([chunk ''x'' 2 [0x41, 0x42] False ''early''] @
                    [chunk ''x'' 2 [] True ''last'' :: (string, string) ToolInvokeMessage])))) = BLOB \<and>
   meta (last (outputs (invoke ([chunk ''x'' 2 [0x41, 0x42] False ''early''] @
                    [chunk ''x'' 2 [] True ''last'' :: (string, string) ToolInvokeMessage])))) = ''last''"
proof -
  have e: "invoke [chunk ''x'' 2 [0x41, 0x42] False ''early'' :: (string, string) ToolInvokeMessage] =
             ([], [''x'' \<mapsto> \<lparr>bytes_written = 2, total_length = 2, data = [0x41, 0x42]\<rparr>], None)"
    by (simp add: invoke_def step_def chunk_def Let_def FileChunk_init_def write_at_def
        replicate_numeral numeral_2_eq_2)
  then have h: "raised (invoke [chunk ''x'' 2 [0x41, 0x42] False ''early''
                  :: (string, string) ToolInvokeMessage]) = None"
    by (simp add: raised_def)
  from blob_meta_from_final_chunk[OF h, of "''x''" 2 "[]" "''last''"] h
  show ?thesis by (simp add: e outputs_def final_files_def)
qed

subsection \<open>Size limits\<close>

text \<open>
  C3, as stated, fails for a chunk marked final: a single chunk with 8193 bytes of data
  and \<open>end = True\<close> raises nothing and a blob is yielded. The guards of lines 153 and 160
  stand in the \<open>else\<close> branch of \<open>if is_end\<close> and are not reached for a final chunk.
\<close>

theorem oversized_final_chunk_counterexample:
  "8192 < length (replicate 8193 (0x41 :: byte)) \<and>
   raised (invoke [chunk ''x'' 8193 (replicate 8193 0x41) True ()]
      :: (unit, unit) ToolInvokeMessage list \<times> files \<times> error option) = None \<and>
   outputs (invoke [chunk ''x'' 8193 (replicate 8193 0x41) True ()]
      :: (unit, unit) ToolInvokeMessage list \<times> files \<times> error option)
     = [\<lparr>msg_type = BLOB, message = BlobMessage (replicate 8193 0), meta = ()\<rparr>]"
  by (simp add: raised_def outputs_def invoke_def step_def chunk_def Let_def FileChunk_init_def)

text \<open>
  C3, amended: for every chunk event with \<open>end = False\<close> whose data is longer than 8192
  bytes, consumed after a stream that raised nothing and such that the bytes already
  written for its identifier plus its own length stay within 30 MiB (the first chunk of a
  blob included), the loop raises the chunk-size error at that chunk. Nothing is written:
  the buffer of the identifier is the one that was there, or the fresh zero-filled one.
  No output is produced by that chunk or after it, whatever follows in the stream. (When
  the running total would exceed 30 MiB the cumulative guard comes first, see C5.)
\<close>

theorem chunk_too_large:
  assumes "raised (invoke pre) = None"
    and "8192 < length d"
    and "length (written c pre) + length d \<le> 30 * 1024 * 1024"
  shows "raised (invoke (pre @ chunk c n d False m # post)) = Some ChunkTooLarge \<and>
         outputs (invoke (pre @ chunk c n d False m # post)) = outputs (invoke pre) \<and>
         final_files (invoke (pre @ chunk c n d False m # post)) =
           (final_files (invoke pre))
             (c \<mapsto> (case final_files (invoke pre) c of None \<Rightarrow> FileChunk_init n | Some f \<Rightarrow> f))"
proof -
  note r = invoke_ok[OF assms(1)]
  have "step (final_files (invoke pre)) (chunk c n d False m :: ('a, 'b) ToolInvokeMessage) =
          ((final_files (invoke pre))
             (c \<mapsto> (case final_files (invoke pre) c of None \<Rightarrow> FileChunk_init n | Some f \<Rightarrow> f)),
           Inl ChunkTooLarge)"
    using assms(2,3) by (intro step_chunk_too_large) (simp_all add: entry_bytes_written[OF r])
  from run_fault[OF r this, of post] show ?thesis
    by (simp add: invoke_def raised_def outputs_def final_files_def)
qed

theorem chunk_too_large_witness:
  "raised (invoke ([] :: (string, string) ToolInvokeMessage list)) = None \<and>
   8192 < length (replicate 8193 (0x41 :: byte)) \<and>
   length (written ''x'' ([] :: (string, string) ToolInvokeMessage list)) + length (replicate 8193 (0x41 :: byte))
     \<le> 30 * 1024 * 1024 \<and>
   raised (invoke ([] @ chunk ''x'' 8193 (replicate 8193 0x41) False ''m'' #
             [\<lparr>msg_type = OtherType ''text'', message = OtherMessage ''a'', meta = ''m0''\<rparr>]))
     = Some ChunkTooLarge \<and>
   outputs (invoke ([] @ chunk ''x'' 8193 (replicate 8193 0x41) False ''m'' #
             [\<lparr>msg_type = OtherType ''text'', message = OtherMessage ''a'', meta = ''m0''\<rparr>]))
     = [] \<and>
   final_files (invoke ([] @ chunk ''x'' 8193 (replicate 8193 0x41) False ''m'' #
             [\<lparr>msg_type = OtherType ''text'', message = OtherMessage ''a'', meta = ''m0''\<rparr>]))
     = [''x'' \<mapsto> FileChunk_init 8193]"
proof -
  have h1: "raised (invoke ([] :: (string, string) ToolInvokeMessage list)) = None"
    by (simp add: raised_def invoke_def)
  have h2: "8192 < length (replicate 8193 (0x41 :: byte))" by simp
  have h3: "length (written ''x'' ([] :: (string, string) ToolInvokeMessage list)) +
              length (replicate 8193 (0x41 :: byte)) \<le> 30 * 1024 * 1024"
    by (simp add: written_def)
  have o: "outputs (invoke ([] :: (string, string) ToolInvokeMessage list)) = []"
    and f: "final_files (invoke ([] :: (string, string) ToolInvokeMessage list)) = Map.empty"
    by (simp_all add: outputs_def final_files_def invoke_def)
  from chunk_too_large[OF h1 h2 h3, of 8193 "''m''"
      "[\<lparr>msg_type = OtherType ''text'', message = OtherMessage ''a'', meta = ''m0''\<rparr>]"]
  show ?thesis using h1 h2 h3 by (simp only: o f option.case simp_thms)
qed

text \<open>
  C5, as stated, fails for a chunk marked final: after 3840 chunks of 8192 bytes for one
  identifier (30 MiB written), a final chunk with one byte of data would bring the total
  over the limit, yet the loop raises nothing, and the entry stays in the dictionary.
\<close>

theorem final_chunk_over_limit_counterexample:
  "30 * 1024 * 1024 <
     length (written ''x'' (replicate 3840 (chunk ''x'' 31457281 (replicate 8192 0x41) False ''m'')
       :: (string, string) ToolInvokeMessage list)) + length [0x41 :: byte] \<and>
   raised (invoke (replicate 3840 (chunk ''x'' 31457281 (replicate 8192 0x41) False ''m'') @
                   [chunk ''x'' 31457281 [0x41] True ''m'']
       :: (string, string) ToolInvokeMessage list)) = None \<and>
   final_files (invoke (replicate 3840 (chunk ''x'' 31457281 (replicate 8192 0x41) False ''m'') @
                   [chunk ''x'' 31457281 [0x41] True ''m'']
       :: (string, string) ToolInvokeMessage list)) ''x'' \<noteq> None"
  using run_final_chunk[OF invoke_ok[OF full_stream_ok], of "''x''" 31457281 "[0x41]" "''m''"]
  by (simp add: full_stream_written raised_def final_files_def invoke_def)

text \<open>
  C5, amended: for every chunk event with \<open>end = False\<close>, consumed after a stream that
  raised nothing, whose acceptance would make the bytes written for its identifier exceed
  \<open>30 * 1024 * 1024\<close>, the loop removes the entry of that identifier from the dictionary
  and raises the size-limit error at that chunk, however small the chunk is. The chunk is
  neither truncated nor skipped: no output is produced by it or after it, whatever
  follows in the stream.
\<close>

theorem blob_too_large:
  assumes "raised (invoke pre) = None"
    and "30 * 1024 * 1024 < length (written c pre) + length d"
  shows "raised (invoke (pre @ chunk c n d False m # post)) = Some BlobTooLarge \<and>
         outputs (invoke (pre @ chunk c n d False m # post)) = outputs (invoke pre) \<and>
         final_files (invoke (pre @ chunk c n d False m # post)) = (final_files (invoke pre))(c := None)"
proof -
  note r = invoke_ok[OF assms(1)]
  have "step (final_files (invoke pre)) (chunk c n d False m :: ('a, 'b) ToolInvokeMessage) =
          ((final_files (invoke pre))(c := None), Inl BlobTooLarge)"
    using assms(2) by (intro step_blob_too_large) (simp add: entry_bytes_written[OF r])
  from run_fault[OF r this, of post] show ?thesis
    by (simp add: invoke_def raised_def outputs_def final_files_def)
qed

theorem blob_too_large_witness:
  "raised (invoke (replicate 3840 (chunk ''x'' 31457281 (replicate 8192 0x41) False ''m'')
      :: (string, string) ToolInvokeMessage list)) = None \<and>
   30 * 1024 * 1024 <
     length (written ''x'' (replicate 3840 (chunk ''x'' 31457281 (replicate 8192 0x41) False ''m'')
       :: (string, string) ToolInvokeMessage list)) + length [0x41 :: byte] \<and>
   raised (invoke (replicate 3840 (chunk ''x'' 31457281 (replicate 8192 0x41) False ''m'') @
                   chunk ''x'' 31457281 [0x41] False ''m'' #
                   [\<lparr>msg_type = OtherType ''text'', message = OtherMessage ''a'', meta = ''m0''\<rparr>]))
     = Some BlobTooLarge \<and>
   final_files (invoke (replicate 3840 (chunk ''x'' 31457281 (replicate 8192 0x41) False ''m'') @
                   chunk ''x'' 31457281 [0x41] False ''m'' #
                   [\<lparr>msg_type = OtherType ''text'', message = OtherMessage ''a'', meta = ''m0''\<rparr>])) ''x''
     = None"
proof -
  have h2: "30 * 1024 * 1024 <
     length (written ''x'' (replicate 3840 (chunk ''x'' 31457281 (replicate 8192 0x41) False ''m'')
       :: (string, string) ToolInvokeMessage list)) + length [0x41 :: byte]"
    by (simp add: full_stream_written)
  from blob_too_large[OF full_stream_ok h2, of 31457281 "''m''"
      "[\<lparr>msg_type = OtherType ''text'', message = OtherMessage ''a'', meta = ''m0''\<rparr>]"]
  show ?thesis using full_stream_ok h2 by simp
qed

text \<open>
  C6: once the loop has raised an error on a stream, in particular either size-limit
  error, nothing that follows in the input changes the result: the outputs are those
  yielded before the fault, the dictionary is the one at the fault, and no later event is
  processed.
\<close>

theorem fault_ends_stream:
  assumes "raised (invoke xs) = Some err"
  shows "invoke (xs @ post) = invoke xs"
  using assms
  by (cases "run Map.empty xs") (simp add: invoke_def raised_def run_append)

theorem fault_ends_stream_witness:
  "raised (invoke [\<lparr>msg_type = OtherType ''text'', message = OtherMessage ''a'', meta = ''m0''\<rparr>,
                   chunk ''x'' 8193 (replicate 8193 0x41) False ''m1'']) = Some ChunkTooLarge \<and>
   invoke ([\<lparr>msg_type = OtherType ''text'', message = OtherMessage ''a'', meta = ''m0''\<rparr>,
            chunk ''x'' 8193 (replicate 8193 0x41) False ''m1''] @
           [\<lparr>msg_type = OtherType ''text'', message = OtherMessage ''b'', meta = ''m0''\<rparr>,
            chunk ''x'' 8193 [] True ''m2'']) =
     ([\<lparr>msg_type = OtherType ''text'', message = OtherMessage ''a'', meta = ''m0''\<rparr>],
      [''x'' \<mapsto> FileChunk_init 8193], Some ChunkTooLarge) \<and>
   raised (invoke [\<lparr>msg_type = OtherType ''text'', message = OtherMessage ''a'', meta = ''m0''\<rparr>,
                   chunk ''y'' 0 (replicate 31457281 0x41) False ''m1'']) = Some BlobTooLarge \<and>
   invoke ([\<lparr>msg_type = OtherType ''text'', message = OtherMessage ''a'', meta = ''m0''\<rparr>,
            chunk ''y'' 0 (replicate 31457281 0x41) False ''m1''] @
           [\<lparr>msg_type = OtherType ''text'', message = OtherMessage ''b'', meta = ''m0''\<rparr>,
            chunk ''y'' 0 [] True ''m2'']) =
     ([\<lparr>msg_type = OtherType ''text'', message = OtherMessage ''a'', meta = ''m0''\<rparr>],
      Map.empty, Some BlobTooLarge)"
proof -
  have e1: "invoke [\<lparr>msg_type = OtherType ''text'', message = OtherMessage ''a'', meta = ''m0''\<rparr>,
                   chunk ''x'' 8193 (replicate 8193 0x41) False ''m1''] =
     ([\<lparr>msg_type = OtherType ''text'', message = OtherMessage ''a'', meta = ''m0''\<rparr>],
      [''x'' \<mapsto> FileChunk_init 8193], Some ChunkTooLarge)"
    by (simp add: invoke_def step_def chunk_def Let_def FileChunk_init_def)
  have e2: "invoke [\<lparr>msg_type = OtherType ''text'', message = OtherMessage ''a'', meta = ''m0''\<rparr>,
                   chunk ''y'' 0 (replicate 31457281 0x41) False ''m1''] =
     ([\<lparr>msg_type = OtherType ''text'', message = OtherMessage ''a'', meta = ''m0''\<rparr>],
      Map.empty, Some BlobTooLarge)"
    by (simp add: invoke_def step_def chunk_def Let_def FileChunk_init_def)
  have h1: "raised (invoke [\<lparr>msg_type = OtherType ''text'', message = OtherMessage ''a'', meta = ''m0''\<rparr>,
                   chunk ''x'' 8193 (replicate 8193 0x41) False ''m1'']) = Some ChunkTooLarge"
    by (simp only: e1 raised_def snd_conv)
  have h2: "raised (invoke [\<lparr>msg_type = OtherType ''text'', message = OtherMessage ''a'', meta = ''m0''\<rparr>,
                   chunk ''y'' 0 (replicate 31457281 0x41) False ''m1'']) = Some BlobTooLarge"
    by (simp only: e2 raised_def snd_conv)
  from fault_ends_stream[OF h1,
      of "[\<lparr>msg_type = OtherType ''text'', message = OtherMessage ''b'', meta = ''m0''\<rparr>,
            chunk ''x'' 8193 [] True ''m2'']"]
    fault_ends_stream[OF h2,
      of "[\<lparr>msg_type = OtherType ''text'', message = OtherMessage ''b'', meta = ''m0''\<rparr>,
            chunk ''y'' 0 [] True ''m2'']"]
  show ?thesis using h1 h2 by (simp only: e1 e2 simp_thms)
qed

subsection \<open>Length of an emitted blob\<close>

text \<open>
  C10: the buffer of an identifier is allocated with the length \<open>n0\<close> declared by the
  first chunk seen for it, filled with zero bytes. When a final chunk is consumed after a
  stream that raised nothing, and the chunks written for the identifier have at most
  \<open>n0\<close> bytes in total, the blob yielded consists of the bytes written followed by zero
  bytes: its length is exactly \<open>n0\<close>, and every position not written holds the zero
  byte.
\<close>

theorem blob_length_declared:
  assumes "raised (invoke pre) = None"
    and "declared c (pre @ [chunk c n d True m]) = Some n0"
    and "length (written c pre) \<le> n0"
  shows "outputs (invoke (pre @ [chunk c n d True m])) =
           outputs (invoke pre) @
           [\<lparr>msg_type = BLOB,
             message = BlobMessage (written c pre @ replicate (n0 - length (written c pre)) 0),
             meta = m\<rparr>] \<and>
         (case message (last (outputs (invoke (pre @ [chunk c n d True m])))) of
            BlobMessage b \<Rightarrow>
              length b = n0 \<and>
              take (length (written c pre)) b = written c pre \<and>
              (\<forall>i. length (written c pre) \<le> i \<and> i < n0 \<longrightarrow> b ! i = 0)
          | _ \<Rightarrow> False)"
proof -
  from assms(2) have n0: "(case declared c pre of None \<Rightarrow> n | Some k \<Rightarrow> k) = n0"
    by (simp add: declared_snoc declared_by_def chunk_def split: option.splits)
  from run_final_chunk[OF invoke_ok[OF assms(1)], of c n d m]
  have o: "outputs (invoke (pre @ [chunk c n d True m])) =
           outputs (invoke pre) @
           [\<lparr>msg_type = BLOB,
             message = BlobMessage (written c pre @ replicate (n0 - length (written c pre)) 0),
             meta = m\<rparr>]"
    by (simp add: n0 invoke_def outputs_def buffer_of_def)
  have l: "length (written c pre @ replicate (n0 - length (written c pre)) (0 :: byte)) = n0"
    using assms(3) by simp
  have z: "\<forall>i. length (written c pre) \<le> i \<and> i < n0 \<longrightarrow>
              (written c pre @ replicate (n0 - length (written c pre)) (0 :: byte)) ! i = 0"
    by (auto simp add: nth_append)
  have "case message (last (outputs (invoke (pre @ [chunk c n d True m])))) of
            BlobMessage b \<Rightarrow>
              length b = n0 \<and>
              take (length (written c pre)) b = written c pre \<and>
              (\<forall>i. length (written c pre) \<le> i \<and> i < n0 \<longrightarrow> b ! i = 0)
          | _ \<Rightarrow> False"
    using l z by (simp add: o)
  with o show ?thesis by blast
qed

theorem blob_length_declared_witness:
  "raised (invoke [chunk ''x'' 4 [0x41, 0x42] False ''m1'' :: (string, string) ToolInvokeMessage]) = None \<and>
   declared ''x'' ([chunk ''x'' 4 [0x41, 0x42] False ''m1''] @
                   [chunk ''x'' 9 [] True ''m2'' :: (string, string) ToolInvokeMessage]) = Some 4 \<and>
   length (written ''x'' [chunk ''x'' 4 [0x41, 0x42] False ''m1'' :: (string, string) ToolInvokeMessage]) \<le> 4 \<and>
   outputs (invoke ([chunk ''x'' 4 [0x41, 0x42] False ''m1''] @
                    [chunk ''x'' 9 [] True ''m2'' :: (string, string) ToolInvokeMessage])) =
     [\<lparr>msg_type = BLOB, message = BlobMessage [0x41, 0x42, 0, 0], meta = ''m2''\<rparr>] \<and>
   (case message (last (outputs (invoke ([chunk ''x'' 4 [0x41, 0x42] False ''m1''] @
                    [chunk ''x'' 9 [] True ''m2'' :: (string, string) ToolInvokeMessage])))) of
      BlobMessage b \<Rightarrow> length b = 4 \<and> take 2 b = [0x41, 0x42] \<and> b ! 2 = 0 \<and> b ! 3 = 0
    | _ \<Rightarrow> False)"
proof -
  let ?pre = "[chunk ''x'' 4 [0x41, 0x42] False ''m1'' :: (string, string) ToolInvokeMessage]"
  have e: "invoke ?pre =
             ([], [''x'' \<mapsto> \<lparr>bytes_written = 2, total_length = 4, data = [0x41, 0x42, 0, 0]\<rparr>], None)"
    by (simp add: invoke_def step_def chunk_def Let_def FileChunk_init_def write_at_def
        replicate_numeral numeral_2_eq_2)
  have h1: "raised (invoke ?pre) = None" by (simp add: e raised_def)
  have h2: "declared ''x'' (?pre @ [chunk ''x'' 9 [] True ''m2'']) = Some 4"
    by (simp add: declared_by_def chunk_def)
  have w: "written ''x'' ?pre = [0x41, 0x42]"
    by (simp add: written_def written_by_def chunk_def)
  have h3: "length (written ''x'' ?pre) \<le> 4" by (simp add: w)
  from blob_length_declared[OF h1 h2 h3]
  have t: "outputs (invoke (?pre @ [chunk ''x'' 9 [] True ''m2''])) =
             [\<lparr>msg_type = BLOB, message = BlobMessage [0x41, 0x42, 0, 0], meta = ''m2''\<rparr>]"
    by (simp add: w e outputs_def replicate_numeral)
  have "case message (last (outputs (invoke (?pre @ [chunk ''x'' 9 [] True ''m2''])))) of
      BlobMessage b \<Rightarrow> length b = 4 \<and> take 2 b = [0x41, 0x42] \<and> b ! 2 = 0 \<and> b ! 3 = 0
    | _ \<Rightarrow> False"
    unfolding t by (simp add: numeral_2_eq_2 numeral_3_eq_3)
  with t h1 h2 h3 show ?thesis by blast
qed

subsection \<open>Life cycle of the entries\<close>

text \<open>
  C4 does not hold of the loop: the branch for \<open>end = True\<close> yields the blob and leaves
  the entry in \<open>files\<close>; only the size-limit branch (line 155) deletes an entry. After
  the stream \<open>{id = "x", total_length = 2, data = b"AB", end = False}\<close>,
  \<open>{id = "x", data = b"", end = True}\<close> the entry of \<open>"x"\<close> is still there with its two
  bytes, and when two more chunks for \<open>"x"\<close> follow, one with \<open>b"CD"\<close> and a final one,
  the completed entry is written again: the second blob is \<open>b"ABCD"\<close>, where a fresh
  buffer would give \<open>b"CD"\<close>.
\<close>

theorem completed_entry_kept:
  "final_files (invoke [chunk ''x'' 2 [0x41, 0x42] False (), chunk ''x'' 2 [] True ()
      :: (unit, unit) ToolInvokeMessage]) ''x''
     = Some \<lparr>bytes_written = 2, total_length = 2, data = [0x41, 0x42]\<rparr> \<and>
   outputs (invoke [chunk ''x'' 2 [0x41, 0x42] False (), chunk ''x'' 2 [] True (),
                    chunk ''x'' 2 [0x43, 0x44] False (), chunk ''x'' 2 [] True ()
      :: (unit, unit) ToolInvokeMessage])
     = [\<lparr>msg_type = BLOB, message = BlobMessage [0x41, 0x42], meta = ()\<rparr>,
        \<lparr>msg_type = BLOB, message = BlobMessage [0x41, 0x42, 0x43, 0x44], meta = ()\<rparr>]"
  by (simp add: final_files_def outputs_def invoke_def step_def chunk_def Let_def FileChunk_init_def
      write_at_def replicate_numeral numeral_2_eq_2)

subsection \<open>End of the stream\<close>

text \<open>
  C8: let the input sequence be read to its end, that is, every event is well formed
  and every chunk with \<open>end = False\<close> passes the two guards (at most 8192 bytes, and at
  most 30 MiB in total for each identifier), and let \<open>c\<close> be an identifier that has
  received only chunks with \<open>end = False\<close>. Then the loop ends without an error, and
  it yields no blob for \<open>c\<close>: its outputs are exactly the outputs for the same sequence
  with the chunks of \<open>c\<close> taken out. The pending buffer is never flushed.
\<close>

theorem abandoned_blob_discarded:
  assumes "\<forall>e \<in> set xs. well_formed e"
    and "\<forall>e \<in> set xs. within_chunk_limit e"
    and "\<forall>c. length (written c xs) \<le> 30 * 1024 * 1024"
    and "\<forall>e \<in> set xs. \<not> is_final_chunk_of c e"
  shows "raised (invoke xs) = None \<and>
         raised (invoke (filter (\<lambda>e. \<not> is_chunk_of c e) xs)) = None \<and>
         outputs (invoke xs) = outputs (invoke (filter (\<lambda>e. \<not> is_chunk_of c e) xs))"
proof -
  from run_no_fault[OF assms(1-3)] obtain outs fs where
    r: "run Map.empty xs = (outs, fs, None)" by blast
  from run_without_pending[OF r assms(4)] obtain fs' where
    "run Map.empty (filter (\<lambda>e. \<not> is_chunk_of c e) xs) = (outs, fs', None)" ..
  with r show ?thesis by (simp add: invoke_def raised_def outputs_def)
qed

theorem abandoned_blob_discarded_witness:
  "well_formed (chunk ''x'' 4 [0x41, 0x42] False ''m1'' :: (string, string) ToolInvokeMessage) \<and>
   within_chunk_limit (chunk ''x'' 4 [0x41, 0x42] False ''m1'' :: (string, string) ToolInvokeMessage) \<and>
   \<not> is_final_chunk_of ''x'' (chunk ''x'' 4 [0x41, 0x42] False ''m1'' :: (string, string) ToolInvokeMessage) \<and>
   is_chunk_of ''x'' (chunk ''x'' 4 [0x41, 0x42] False ''m1'' :: (string, string) ToolInvokeMessage) \<and>
   raised (invoke [chunk ''x'' 4 [0x41, 0x42] False ''m1'',
                   \<lparr>msg_type = OtherType ''text'', message = OtherMessage ''a'', meta = ''m0''\<rparr>,
                   chunk ''y'' 1 [0x43] False ''m2'',
                   chunk ''y'' 1 [] True ''m3'']) = None \<and>
   outputs (invoke [chunk ''x'' 4 [0x41, 0x42] False ''m1'',
                   \<lparr>msg_type = OtherType ''text'', message = OtherMessage ''a'', meta = ''m0''\<rparr>,
                   chunk ''y'' 1 [0x43] False ''m2'',
                   chunk ''y'' 1 [] True ''m3'']) =
     [\<lparr>msg_type = OtherType ''text'', message = OtherMessage ''a'', meta = ''m0''\<rparr>,
      \<lparr>msg_type = BLOB, message = BlobMessage [0x43], meta = ''m3''\<rparr>]"
proof -
  let ?xs = "[chunk ''x'' 4 [0x41, 0x42] False ''m1'',
              \<lparr>msg_type = OtherType ''text'', message = OtherMessage ''a'', meta = ''m0''\<rparr>,
              chunk ''y'' 1 [0x43] False ''m2'',
              chunk ''y'' 1 [] True ''m3''] :: (string, string) ToolInvokeMessage list"
  have h1: "\<forall>e \<in> set ?xs. well_formed e" by (simp add: well_formed_def chunk_def)
  have h2: "\<forall>e \<in> set ?xs. within_chunk_limit e" by (simp add: within_chunk_limit_def chunk_def)
  have h3: "\<forall>c. length (written c ?xs) \<le> 30 * 1024 * 1024"
    by (simp add: written_def written_by_def chunk_def)
  have h4: "\<forall>e \<in> set ?xs. \<not> is_final_chunk_of ''x'' e"
    by (simp add: is_final_chunk_of_def chunk_def)
  have f: "filter (\<lambda>e. \<not> is_chunk_of ''x'' e) ?xs =
             [\<lparr>msg_type = OtherType ''text'', message = OtherMessage ''a'', meta = ''m0''\<rparr>,
              chunk ''y'' 1 [0x43] False ''m2'', chunk ''y'' 1 [] True ''m3'']"
    by (simp add: is_chunk_of_def chunk_def)
  have o: "outputs (invoke [\<lparr>msg_type = OtherType ''text'', message = OtherMessage ''a'', meta = ''m0''\<rparr>,
              chunk ''y'' 1 [0x43] False ''m2'', chunk ''y'' 1 [] True ''m3'']) =
     [\<lparr>msg_type = OtherType ''text'', message = OtherMessage ''a'', meta = ''m0''\<rparr>,
      \<lparr>msg_type = BLOB, message = BlobMessage [0x43], meta = ''m3''\<rparr>]"
    by (simp add: outputs_def invoke_def step_def chunk_def Let_def FileChunk_init_def write_at_def)
  note t = abandoned_blob_discarded[OF h1 h2 h3 h4, unfolded f o]
  have c1: "well_formed (chunk ''x'' 4 [0x41, 0x42] False ''m1'' :: (string, string) ToolInvokeMessage)"
    by (simp add: well_formed_def chunk_def)
  have c2: "within_chunk_limit (chunk ''x'' 4 [0x41, 0x42] False ''m1'' :: (string, string) ToolInvokeMessage)"
    by (simp add: within_chunk_limit_def chunk_def)
  have c3: "\<not> is_final_chunk_of ''x'' (chunk ''x'' 4 [0x41, 0x42] False ''m1'' :: (string, string) ToolInvokeMessage)"
    by (simp add: is_final_chunk_of_def chunk_def)
  have c4: "is_chunk_of ''x'' (chunk ''x'' 4 [0x41, 0x42] False ''m1'' :: (string, string) ToolInvokeMessage)"
    by (simp add: is_chunk_of_def chunk_def)
  from t c1 c2 c3 c4 show ?thesis by blast
qed

end
